theory Spec2Isabelle
  imports Main "HOL-Library.Multiset" "HOL-Library.Sublist"
begin

section \<open>Data model of the todo list component\<close>

text \<open>
  Modelled from the spec: the \<^verbatim>\<open>Todo\<close> type is imported from
  \<^verbatim>\<open>../types/todo-type\<close>, whose declaration is not among the sources. The spec
  describes a task record as an identifier, a display title and a completion flag; the
  component reads \<^verbatim>\<open>todo.id\<close>, \<^verbatim>\<open>todo.title\<close> and \<^verbatim>\<open>todo.completed\<close>.
  The record is extensible, so every statement below about \<open>'a todo_scheme\<close> also
  covers records that carry further fields.
\<close>

record todo =
  id_todo :: int
  title :: string
  completed :: bool

text \<open>\<^verbatim>\<open>type Filter = 'All' | 'Open' | 'Completed'\<close>\<close>

datatype Filter = All_Filter | Open_Filter | Completed_Filter

text \<open>
  The five \<^verbatim>\<open>useState\<close> slots of \<^verbatim>\<open>TodoList\<close>. The two collection slots have
  the type \<open>'d\<close> of whatever \<^verbatim>\<open>response.json()\<close> resolves to: the annotation
  \<^verbatim>\<open>Todo[]\<close> is erased at run time and \<^verbatim>\<open>fetchTodos\<close> never inspects the value.
\<close>

record 'd state =
  todos :: 'd
  filteredTodos :: 'd
  loading :: bool
  error :: "string option"
  filter_mode :: Filter

section \<open>The filter effect\<close>

text \<open>
  The body of the second \<^verbatim>\<open>useEffect\<close>: the value of the local variable
  \<^verbatim>\<open>updated\<close> when it is handed to \<^verbatim>\<open>setFilteredTodos\<close>.
  \<^verbatim>\<open>
    let updated = todos;
    if (filter === 'Open') {
      updated = todos.filter((todo) => !todo.completed);
    } else if (filter === 'Completed') {
      updated = todos.filter((todo) => todo.completed);
    }
    setFilteredTodos(updated);
  \<close>
\<close>

definition updated :: "'a todo_scheme list \<Rightarrow> Filter \<Rightarrow> 'a todo_scheme list" where
  "updated tds flt =
     (if flt = Open_Filter then filter (\<lambda>todo. \<not> completed todo) tds
      else if flt = Completed_Filter then filter (\<lambda>todo. completed todo) tds
      else tds)"

definition filter_effect :: "'a todo_scheme list state \<Rightarrow> 'a todo_scheme list state" where
  "filter_effect s = s\<lparr>filteredTodos := updated (todos s) (filter_mode s)\<rparr>"

section \<open>The fetch operation\<close>

text \<open>
  What a \<^verbatim>\<open>try\<close> block can catch. \<^verbatim>\<open>error instanceof Error\<close> holds for the
  \<^verbatim>\<open>Error\<close> objects (among them the \<^verbatim>\<open>TypeError\<close> of a failed \<^verbatim>\<open>fetch\<close> and
  the \<^verbatim>\<open>SyntaxError\<close> of \<^verbatim>\<open>response.json()\<close>), which carry a \<^verbatim>\<open>message\<close>;
  any other thrown value is \<open>NonError\<close>.
\<close>

datatype thrown = JsError string | NonError

text \<open>A promise that has settled.\<close>

datatype 'r settled = Fulfilled 'r | Rejected thrown

text \<open>
  The part of a \<^verbatim>\<open>Response\<close> the code can reach: the \<^verbatim>\<open>ok\<close> flag it tests, the
  status code (which it never reads), and the outcome of \<^verbatim>\<open>response.json()\<close>.
\<close>

record 'd response =
  ok :: bool
  status :: nat
  json :: "'d settled"

text \<open>
  The observable effects of \<^verbatim>\<open>fetchTodos\<close>, in the order they happen: the calls of
  the four setters it is given, and the call of \<^verbatim>\<open>fetch\<close> with its URL.
\<close>

datatype 'd effect =
    SetTodos 'd
  | SetFilteredTodos 'd
  | SetLoading bool
  | SetError "string option"
  | Fetch string

fun is_SetTodos :: "'d effect \<Rightarrow> bool" where
  "is_SetTodos (SetTodos d) = True"
| "is_SetTodos e = False"

fun is_SetLoading :: "'d effect \<Rightarrow> bool" where
  "is_SetLoading (SetLoading b) = True"
| "is_SetLoading e = False"

fun is_SetError :: "'d effect \<Rightarrow> bool" where
  "is_SetError (SetError m) = True"
| "is_SetError e = False"

fun is_Fetch :: "'d effect \<Rightarrow> bool" where
  "is_Fetch (Fetch u) = True"
| "is_Fetch e = False"

definition url :: string where
  "url = ''https://jsonplaceholder.typicode.com/todos''"

text \<open>
  The \<^verbatim>\<open>try\<close> block, given how the network answers: the effects it performs and the
  value it throws, if any.
  \<^verbatim>\<open>
    const response = await fetch('https://jsonplaceholder.typicode.com/todos');
    if (!response.ok) {
      throw new Error('HTTP error! Status: 404');
    }
    const data: Todo[] = await response.json();
    setTodos(data);
    setFilteredTodos(data);
  \<close>
\<close>

definition try_block :: "'d response settled \<Rightarrow> 'd effect list \<times> thrown option" where
  "try_block net =
     (case net of
        Rejected err \<Rightarrow> ([Fetch url], Some err)
      | Fulfilled response \<Rightarrow>
          if \<not> ok response then ([Fetch url], Some (JsError ''HTTP error! Status: 404''))
          else (case json response of
                  Rejected err \<Rightarrow> ([Fetch url], Some err)
                | Fulfilled data \<Rightarrow>
                    ([Fetch url, SetTodos data, SetFilteredTodos data], None)))"

text \<open>
  \<^verbatim>\<open>setError(error instanceof Error ? error.message : 'unknown error occurred')\<close>
\<close>

definition error_message :: "thrown \<Rightarrow> string" where
  "error_message err =
     (case err of
        JsError message \<Rightarrow> message
      | NonError \<Rightarrow> ''unknown error occurred'')"

definition catch_block :: "thrown \<Rightarrow> 'd effect list" where
  "catch_block err = [SetError (Some (error_message err))]"

text \<open>\<^verbatim>\<open>setLoading(false)\<close>\<close>

definition finally_block :: "'d effect list" where
  "finally_block = [SetLoading False]"

text \<open>
  \<^verbatim>\<open>fetchTodos\<close>: \<^verbatim>\<open>setLoading(true)\<close>, then the \<^verbatim>\<open>try\<close> block, the
  \<^verbatim>\<open>catch\<close> block when something was thrown, and the \<^verbatim>\<open>finally\<close> block.
\<close>

definition fetchTodos :: "'d response settled \<Rightarrow> 'd effect list" where
  "fetchTodos net =
     SetLoading True #
     (case try_block net of
        (effs, None) \<Rightarrow> effs
      | (effs, Some err) \<Rightarrow> effs @ catch_block err)
     @ finally_block"

text \<open>The value thrown inside the \<^verbatim>\<open>try\<close> block, if any.\<close>

definition failure :: "'d response settled \<Rightarrow> thrown option" where
  "failure net = snd (try_block net)"

text \<open>The setters write their slot; calling \<^verbatim>\<open>fetch\<close> writes none.\<close>

fun apply_effect :: "'d effect \<Rightarrow> 'd state \<Rightarrow> 'd state" where
  "apply_effect (SetTodos d) s = s\<lparr>todos := d\<rparr>"
| "apply_effect (SetFilteredTodos d) s = s\<lparr>filteredTodos := d\<rparr>"
| "apply_effect (SetLoading b) s = s\<lparr>loading := b\<rparr>"
| "apply_effect (SetError m) s = s\<lparr>error := m\<rparr>"
| "apply_effect (Fetch u) s = s"

definition run :: "'d effect list \<Rightarrow> 'd state \<Rightarrow> 'd state" where
  "run effs s = fold apply_effect effs s"

text \<open>
  The state of a freshly mounted \<^verbatim>\<open>TodoList\<close>, from the defaults of its
  \<^verbatim>\<open>useState\<close> calls; \<open>empty_array\<close> is the empty collection \<^verbatim>\<open>[]\<close>.
\<close>

definition mounted :: "'d \<Rightarrow> 'd state" where
  "mounted empty_array =
     \<lparr>todos = empty_array, filteredTodos = empty_array, loading = False, error = None,
      filter_mode = All_Filter\<rparr>"

text \<open>
  What \<^verbatim>\<open>response.json()\<close> can resolve to: a JSON array of task records, or
  any other well-formed JSON value (kept as its text), such as an object.
  Data of this type is what the collection slots hold when the body is not an array.
\<close>

datatype 'a body = Array "'a list" | NonArray string

section \<open>Observations on a run of the fetch operation\<close>

text \<open>
  The two outcomes of an invocation started in state \<open>s\<close>, with effects \<open>effs\<close> and
  final state \<open>s'\<close>: the raw collection was written and no error is shown, or an error
  with a non-empty message is shown and the raw collection was not written.
\<close>

definition updated_without_error :: "'d effect list \<Rightarrow> 'd state \<Rightarrow> bool" where
  "updated_without_error effs s' = (list_ex is_SetTodos effs \<and> error s' = None)"

definition error_without_update :: "'d state \<Rightarrow> 'd effect list \<Rightarrow> 'd state \<Rightarrow> bool" where
  "error_without_update s effs s' =
     ((case error s' of None \<Rightarrow> False | Some m \<Rightarrow> m \<noteq> [])
      \<and> \<not> list_ex is_SetTodos effs \<and> todos s' = todos s)"

definition exactly_one_outcome :: "'d state \<Rightarrow> 'd response settled \<Rightarrow> bool" where
  "exactly_one_outcome s net =
     (updated_without_error (fetchTodos net) (run (fetchTodos net) s)
      \<noteq> error_without_update s (fetchTodos net) (run (fetchTodos net) s))"

text \<open>
  The same two outcomes, told by the invocation's own writes alone: it writes the raw
  collection and does not write the error slot, or it writes a non-empty message to the
  error slot and does not write the raw collection.
\<close>

fun is_message :: "'d effect \<Rightarrow> bool" where
  "is_message (SetError (Some m)) = (m \<noteq> [])"
| "is_message e = False"

definition writes_collection_only :: "'d effect list \<Rightarrow> bool" where
  "writes_collection_only effs = (list_ex is_SetTodos effs \<and> \<not> list_ex is_SetError effs)"

definition writes_message_only :: "'d effect list \<Rightarrow> bool" where
  "writes_message_only effs = (list_ex is_message effs \<and> \<not> list_ex is_SetTodos effs)"

text \<open>
  A failure was reported: the error slot ends with a non-empty message and the raw
  collection is the one the invocation started with.
\<close>

definition failure_reported :: "'d state \<Rightarrow> 'd response settled \<Rightarrow> bool" where
  "failure_reported s net =
     ((case error (run (fetchTodos net) s) of None \<Rightarrow> False | Some m \<Rightarrow> m \<noteq> [])
      \<and> todos (run (fetchTodos net) s) = todos s)"

text \<open>
  The effects that precede the call of \<^verbatim>\<open>fetch\<close>, and whether they set the loading
  flag and clear the error slot.
\<close>

definition before_fetch :: "'d effect list \<Rightarrow> 'd effect list" where
  "before_fetch effs = takeWhile (\<lambda>e. \<not> is_Fetch e) effs"

definition resets_before_fetch :: "'d effect list \<Rightarrow> bool" where
  "resets_before_fetch effs =
     (SetLoading True \<in> set (before_fetch effs)
      \<and> SetError None \<in> set (before_fetch effs))"

text \<open>
  \<^verbatim>\<open>fetchTodos\<close> is an async function: it runs up to its first \<^verbatim>\<open>await\<close>, the
  call of \<^verbatim>\<open>fetch\<close>, inside the caller's turn, and the rest once the network has
  answered.
\<close>

definition until_await :: "'d effect list \<Rightarrow> 'd effect list" where
  "until_await effs = before_fetch effs @ take 1 (dropWhile (\<lambda>e. \<not> is_Fetch e) effs)"

definition after_await :: "'d effect list \<Rightarrow> 'd effect list" where
  "after_await effs = drop 1 (dropWhile (\<lambda>e. \<not> is_Fetch e) effs)"

text \<open>
  The mount effect, \<^verbatim>\<open>useEffect(() => { fetchTodos({...}); }, [])\<close>, returns no
  cleanup function, so tearing the component down performs no effect and leaves the
  pending invocation as it is. \<open>torn_down_in_flight\<close> is the history of a component
  that is torn down while \<^verbatim>\<open>fetch\<close> is pending; \<open>late\<close> is what happens in a
  history after the teardown.
\<close>

datatype 'd moment = Effect "'d effect" | Teardown

fun is_Teardown :: "'d moment \<Rightarrow> bool" where
  "is_Teardown Teardown = True"
| "is_Teardown (Effect e) = False"

definition torn_down_in_flight :: "'d response settled \<Rightarrow> 'd moment list" where
  "torn_down_in_flight net =
     map Effect (until_await (fetchTodos net)) @ Teardown #
     map Effect (after_await (fetchTodos net))"

definition late :: "'d moment list \<Rightarrow> 'd moment list" where
  "late history = drop 1 (dropWhile (\<lambda>m. \<not> is_Teardown m) history)"

text \<open>The late result is discarded: nothing happens after the teardown.\<close>

definition discards_late_result :: "'d response settled \<Rightarrow> bool" where
  "discards_late_result net = (late (torn_down_in_flight net) = [])"

text \<open>The writes that publish a result: of the raw collection, or of the error slot.\<close>

definition is_result_write :: "'d effect \<Rightarrow> bool" where
  "is_result_write e = (is_SetTodos e \<or> is_SetError e)"

section \<open>Properties of the filter effect\<close>

lemma updated_All: "updated R All_Filter = R"
  by (simp add: updated_def)

lemma updated_Open: "updated R Open_Filter = filter (\<lambda>todo. \<not> completed todo) R"
  by (simp add: updated_def)

lemma updated_Completed: "updated R Completed_Filter = filter completed R"
  by (simp add: updated_def)

lemma subseq_updated: "subseq (updated R M) R"
proof (cases M)
  case All_Filter
  then show ?thesis by (simp add: updated_All)
next
  case Open_Filter
  then show ?thesis by (simp add: updated_Open)
next
  case Completed_Filter
  then show ?thesis by (simp add: updated_Completed)
qed

text \<open>
  Claim C5. For every collection \<open>R\<close> and every filter mode \<open>M\<close> the projected
  collection is a subsequence of \<open>R\<close> (members of \<open>R\<close>, in \<open>R\<close>'s relative order), and
  under mode All it is \<open>R\<close> itself.
\<close>

theorem updated_subseq:
  "subseq (updated R M) R
   \<and> updated R All_Filter = R
   \<and> subseq (filteredTodos (filter_effect s)) (todos s)"
proof -
  have "filteredTodos (filter_effect s) = updated (todos s) (filter_mode s)"
    by (simp add: filter_effect_def)
  with subseq_updated [of R M] subseq_updated [of "todos s" "filter_mode s"] show ?thesis
    by (simp add: updated_All)
qed

text \<open>
  Claim C8. Projecting with mode All first and then with any mode \<open>M\<close> gives the same
  collection as projecting with \<open>M\<close> directly.
\<close>

theorem updated_after_All:
  "updated (updated R All_Filter) M = updated R M"
  by (simp add: updated_All)

text \<open>
  Claim C2. Under mode Open the projection holds exactly the records of \<open>R\<close> whose
  completion flag is false, under mode Completed exactly those whose flag is true, each
  as often as in \<open>R\<close>; no record is in both; together they have the members of \<open>R\<close>
  with their multiplicities, and \<open>R\<close> is an interleaving of the two, so that putting
  their union back into \<open>R\<close>'s order gives \<open>R\<close>.
\<close>

theorem updated_partition:
  "set (updated R Open_Filter) = {t. t \<in> set R \<and> \<not> completed t}
   \<and> set (updated R Completed_Filter) = {t. t \<in> set R \<and> completed t}
   \<and> mset (updated R Open_Filter) = filter_mset (\<lambda>t. \<not> completed t) (mset R)
   \<and> mset (updated R Completed_Filter) = filter_mset completed (mset R)
   \<and> set (updated R Open_Filter) \<inter> set (updated R Completed_Filter) = {}
   \<and> mset (updated R Open_Filter) + mset (updated R Completed_Filter) = mset R
   \<and> R \<in> shuffles (updated R Completed_Filter) (updated R Open_Filter)
   \<and> filter (\<lambda>t. t \<in> set (updated R Open_Filter) \<union> set (updated R Completed_Filter)) R = R"
proof -
  have s1: "set (updated R Open_Filter) = {t. t \<in> set R \<and> \<not> completed t}"
    by (auto simp: updated_Open)
  have s2: "set (updated R Completed_Filter) = {t. t \<in> set R \<and> completed t}"
    by (auto simp: updated_Completed)
  have m1: "mset (updated R Open_Filter) = filter_mset (\<lambda>t. \<not> completed t) (mset R)"
    by (simp add: updated_Open)
  have m2: "mset (updated R Completed_Filter) = filter_mset completed (mset R)"
    by (simp add: updated_Completed)
  have d: "set (updated R Open_Filter) \<inter> set (updated R Completed_Filter) = {}"
    unfolding s1 s2 by blast
  have u: "mset (updated R Open_Filter) + mset (updated R Completed_Filter) = mset R"
    unfolding m1 m2 by (simp add: union_commute)
  have i: "R \<in> shuffles (updated R Completed_Filter) (updated R Open_Filter)"
    unfolding updated_Open updated_Completed by (rule partition_in_shuffles)
  have "\<And>t. t \<in> set R \<Longrightarrow> t \<in> set (updated R Open_Filter) \<union> set (updated R Completed_Filter)"
    unfolding s1 s2 by blast
  then have o: "filter (\<lambda>t. t \<in> set (updated R Open_Filter) \<union> set (updated R Completed_Filter)) R = R"
    by (simp add: filter_id_conv)
  from s1 s2 m1 m2 d u i o show ?thesis by blast
qed

section \<open>Properties of the fetch operation\<close>

subsection \<open>The four ways an invocation can go\<close>

lemma fetchTodos_Rejected:
  "fetchTodos (Rejected err) =
     [SetLoading True, Fetch url, SetError (Some (error_message err)), SetLoading False]"
  by (simp add: fetchTodos_def try_block_def catch_block_def finally_block_def)

lemma fetchTodos_not_ok:
  "\<not> ok r \<Longrightarrow> fetchTodos (Fulfilled r) =
     [SetLoading True, Fetch url, SetError (Some ''HTTP error! Status: 404''),
      SetLoading False]"
  by (simp add: fetchTodos_def try_block_def catch_block_def finally_block_def
      error_message_def)

lemma fetchTodos_json_Rejected:
  "ok r \<Longrightarrow> json r = Rejected err \<Longrightarrow> fetchTodos (Fulfilled r) =
     [SetLoading True, Fetch url, SetError (Some (error_message err)), SetLoading False]"
  by (simp add: fetchTodos_def try_block_def catch_block_def finally_block_def)

lemma fetchTodos_success:
  "ok r \<Longrightarrow> json r = Fulfilled data \<Longrightarrow> fetchTodos (Fulfilled r) =
     [SetLoading True, Fetch url, SetTodos data, SetFilteredTodos data, SetLoading False]"
  by (simp add: fetchTodos_def try_block_def finally_block_def)

lemma failure_Rejected: "failure (Rejected err) = Some err"
  by (simp add: failure_def try_block_def)

lemma failure_not_ok:
  "\<not> ok r \<Longrightarrow> failure (Fulfilled r) = Some (JsError ''HTTP error! Status: 404'')"
  by (simp add: failure_def try_block_def)

lemma failure_json_Rejected:
  "ok r \<Longrightarrow> json r = Rejected err \<Longrightarrow> failure (Fulfilled r) = Some err"
  by (simp add: failure_def try_block_def)

lemma failure_success:
  "ok r \<Longrightarrow> json r = Fulfilled data \<Longrightarrow> failure (Fulfilled r) = None"
  by (simp add: failure_def try_block_def)

text \<open>Every invocation is a failure run or a success run.\<close>

lemma fetchTodos_shape:
  obtains (failed) err where "failure net = Some err"
      and "fetchTodos net =
        [SetLoading True, Fetch url, SetError (Some (error_message err)), SetLoading False]"
  | (succeeded) data where "failure net = None"
      and "fetchTodos net =
        [SetLoading True, Fetch url, SetTodos data, SetFilteredTodos data, SetLoading False]"
proof (cases net)
  case (Rejected err)
  then show ?thesis
    using failed [of err] by (simp add: fetchTodos_Rejected failure_Rejected)
next
  case net: (Fulfilled r)
  show ?thesis
  proof (cases "ok r")
    case False
    with net show ?thesis
      using failed [of "JsError ''HTTP error! Status: 404''"]
      by (simp add: fetchTodos_not_ok failure_not_ok error_message_def)
  next
    case True
    show ?thesis
    proof (cases "json r")
      case (Rejected err)
      with True net show ?thesis
        using failed [of err] by (simp add: fetchTodos_json_Rejected failure_json_Rejected)
    next
      case (Fulfilled data)
      with True net show ?thesis
        using succeeded [of data] by (simp add: fetchTodos_success failure_success)
    qed
  qed
qed

lemma error_message_nonempty: "err \<noteq> JsError [] \<Longrightarrow> error_message err \<noteq> []"
  by (cases err) (simp_all add: error_message_def)

lemma until_await_fetchTodos: "until_await (fetchTodos net) = [SetLoading True, Fetch url]"
  by (cases net rule: fetchTodos_shape) (simp_all add: until_await_def before_fetch_def)

subsection \<open>Order of the effects\<close>

text \<open>
  Claim C3, as stated, fails. On a successful fetch of the empty collection the only
  effect before the call of \<^verbatim>\<open>fetch\<close> is \<^verbatim>\<open>setLoading(true)\<close>: the error slot
  is not set to absent.
\<close>

theorem fetchTodos_no_reset_counterexample:
  "\<not> resets_before_fetch
       (fetchTodos (Fulfilled \<lparr>ok = True, status = 200, json = Fulfilled ([] :: todo list)\<rparr>))"
  by (simp add: fetchTodos_success resets_before_fetch_def before_fetch_def)

text \<open>
  Claim C3, amended. As its first side effect every invocation of \<^verbatim>\<open>fetchTodos\<close>
  sets the loading flag to true, and its next step is the network read. It does not
  write the error slot before the read, and it never sets the error slot to absent: when
  the read is issued the loading flag is true and the error slot holds what it held
  before the invocation.
\<close>

theorem fetchTodos_before_fetch:
  "before_fetch (fetchTodos net) = [SetLoading True]
   \<and> (\<exists>rest. fetchTodos net = SetLoading True # Fetch url # rest)
   \<and> SetError None \<notin> set (fetchTodos net)
   \<and> loading (run (before_fetch (fetchTodos net)) s)
   \<and> error (run (before_fetch (fetchTodos net)) s) = error s"
proof (cases net rule: fetchTodos_shape)
  case (failed err)
  then show ?thesis by (simp add: run_def before_fetch_def)
next
  case (succeeded data)
  then show ?thesis by (simp add: run_def before_fetch_def)
qed

text \<open>
  Claim C4. Whether the fetch succeeds or fails, the last effect of \<^verbatim>\<open>fetchTodos\<close>
  clears the loading flag. The loading flag is written exactly twice, to true by the
  first effect and to false by the last, so it goes from true to false exactly once; the
  single write of the raw collection or of the error slot comes before the last effect;
  the loading flag is true until the last effect and false after it.
\<close>

theorem fetchTodos_loading_last:
  "hd (fetchTodos net) = SetLoading True
   \<and> last (fetchTodos net) = SetLoading False
   \<and> filter is_SetLoading (fetchTodos net) = [SetLoading True, SetLoading False]
   \<and> length (filter is_result_write (butlast (fetchTodos net))) = 1
   \<and> filter is_result_write (fetchTodos net) = filter is_result_write (butlast (fetchTodos net))
   \<and> loading (run (butlast (fetchTodos net)) s)
   \<and> \<not> loading (run (fetchTodos net) s)"
proof (cases net rule: fetchTodos_shape)
  case (failed err)
  then show ?thesis by (simp add: run_def is_result_write_def)
next
  case (succeeded data)
  then show ?thesis by (simp add: run_def is_result_write_def)
qed

subsection \<open>Success\<close>

text \<open>
  Claim C7. When the response is ok and its body decodes to \<open>data\<close>, the invocation
  writes \<open>data\<close> to the raw collection and then to the filtered view. No filter
  recomputation is among its effects, and when it has settled both slots hold \<open>data\<close>.
\<close>

theorem fetchTodos_publishes_both:
  "ok r \<Longrightarrow> json r = Fulfilled data \<Longrightarrow>
     fetchTodos (Fulfilled r) =
       [SetLoading True, Fetch url, SetTodos data, SetFilteredTodos data, SetLoading False]
     \<and> todos (run (fetchTodos (Fulfilled r)) s) = data
     \<and> filteredTodos (run (fetchTodos (Fulfilled r)) s) = data"
  by (simp add: fetchTodos_success run_def)

text \<open>
  Witness for claim C7: the two records of the spec's scenario A, fetched while the
  filter mode is Open; the filtered view then holds both records.
\<close>

theorem fetchTodos_publishes_both_witness:
  "ok \<lparr>ok = True, status = 200, json = Fulfilled
        [\<lparr>id_todo = 1, title = ''Buy milk'', completed = False\<rparr>,
         \<lparr>id_todo = 2, title = ''Pay bills'', completed = True\<rparr>]\<rparr>
   \<and> filteredTodos (run (fetchTodos (Fulfilled \<lparr>ok = True, status = 200, json = Fulfilled
        [\<lparr>id_todo = 1, title = ''Buy milk'', completed = False\<rparr>,
         \<lparr>id_todo = 2, title = ''Pay bills'', completed = True\<rparr>]\<rparr>))
          ((mounted [])\<lparr>filter_mode := Open_Filter\<rparr>))
      = [\<lparr>id_todo = 1, title = ''Buy milk'', completed = False\<rparr>,
         \<lparr>id_todo = 2, title = ''Pay bills'', completed = True\<rparr>]"
proof -
  define r where "r = \<lparr>ok = True, status = 200, json = Fulfilled
        [\<lparr>id_todo = 1, title = ''Buy milk'', completed = False\<rparr>,
         \<lparr>id_todo = 2, title = ''Pay bills'', completed = True\<rparr>]\<rparr>"
  have h1: "ok r" and h2: "json r = Fulfilled
        [\<lparr>id_todo = 1, title = ''Buy milk'', completed = False\<rparr>,
         \<lparr>id_todo = 2, title = ''Pay bills'', completed = True\<rparr>]"
    by (simp_all add: r_def)
  from fetchTodos_publishes_both [OF h1 h2, of "(mounted [])\<lparr>filter_mode := Open_Filter\<rparr>"] h1
  show ?thesis unfolding r_def by blast
qed

subsection \<open>Failure\<close>

text \<open>
  Claim C10. For every response whose \<^verbatim>\<open>ok\<close> flag is false, the invocation
  publishes the fixed message \<^verbatim>\<open>HTTP error! Status: 404\<close>; changing the status
  code of the response changes nothing.
\<close>

theorem fetchTodos_http_error:
  "\<not> ok r \<Longrightarrow>
     fetchTodos (Fulfilled r) =
       [SetLoading True, Fetch url, SetError (Some ''HTTP error! Status: 404''),
        SetLoading False]
     \<and> fetchTodos (Fulfilled (r\<lparr>status := n\<rparr>)) = fetchTodos (Fulfilled r)
     \<and> error (run (fetchTodos (Fulfilled r)) s) = Some ''HTTP error! Status: 404''"
  by (simp add: fetchTodos_not_ok run_def)

text \<open>Witness for claim C10: a response with status 500.\<close>

theorem fetchTodos_http_error_witness:
  "\<not> ok \<lparr>ok = False, status = 500, json = Fulfilled ([] :: todo list)\<rparr>
   \<and> error (run (fetchTodos (Fulfilled \<lparr>ok = False, status = 500,
        json = Fulfilled ([] :: todo list)\<rparr>)) (mounted [])) = Some ''HTTP error! Status: 404''"
proof -
  have h: "\<not> ok \<lparr>ok = False, status = 500, json = Fulfilled ([] :: todo list)\<rparr>"
    by simp
  from fetchTodos_http_error [OF h, of 404 "mounted []"] h show ?thesis
    by blast
qed

text \<open>
  Claim C6, as stated, fails. A response that is ok and whose body is the JSON object
  \<^verbatim>\<open>{}\<close>, well-formed but not an array, is not treated as a failure: the error slot
  stays absent and the raw collection becomes that object.
\<close>

theorem fetchTodos_non_array_counterexample:
  "\<not> failure_reported (mounted (Array []))
       (Fulfilled \<lparr>ok = True, status = 200, json = Fulfilled (NonArray ''{}'' :: todo body)\<rparr>)
   \<and> error (run (fetchTodos (Fulfilled \<lparr>ok = True, status = 200,
         json = Fulfilled (NonArray ''{}'' :: todo body)\<rparr>)) (mounted (Array []))) = None
   \<and> todos (run (fetchTodos (Fulfilled \<lparr>ok = True, status = 200,
         json = Fulfilled (NonArray ''{}'' :: todo body)\<rparr>)) (mounted (Array [])))
       = NonArray ''{}''"
  by (simp add: failure_reported_def fetchTodos_success run_def mounted_def)

text \<open>
  Claim C6, amended. If the source responds successfully but \<^verbatim>\<open>response.json()\<close>
  rejects (the body is not well-formed JSON), and the rejection is not an
  \<^verbatim>\<open>Error\<close> with an empty message, then \<^verbatim>\<open>fetchTodos\<close> treats it as a failure:
  the error slot ends with the rejection's message (the generic message when the
  rejection is not an \<^verbatim>\<open>Error\<close>), which is non-empty, and the raw collection is not
  written.
\<close>

theorem fetchTodos_json_rejected:
  "ok r \<Longrightarrow> json r = Rejected err \<Longrightarrow> err \<noteq> JsError [] \<Longrightarrow>
     failure_reported s (Fulfilled r)
     \<and> error (run (fetchTodos (Fulfilled r)) s) = Some (error_message err)
     \<and> \<not> list_ex is_SetTodos (fetchTodos (Fulfilled r))"
  by (simp add: failure_reported_def fetchTodos_json_Rejected run_def error_message_nonempty)

text \<open>Witness for claim C6, amended: the body is an HTML page.\<close>

theorem fetchTodos_json_rejected_witness:
  "ok \<lparr>ok = True, status = 200,
      json = (Rejected (JsError ''Unexpected token < in JSON at position 0'')
               :: todo body settled)\<rparr>
   \<and> failure_reported (mounted (Array []))
       (Fulfilled \<lparr>ok = True, status = 200,
          json = (Rejected (JsError ''Unexpected token < in JSON at position 0'')
               :: todo body settled)\<rparr>)"
proof -
  define r where "r = \<lparr>ok = True, status = 200,
      json = (Rejected (JsError ''Unexpected token < in JSON at position 0'')
               :: todo body settled)\<rparr>"
  have h1: "ok r"
    and h2: "json r = Rejected (JsError ''Unexpected token < in JSON at position 0'')"
    and h3: "JsError ''Unexpected token < in JSON at position 0'' \<noteq> JsError []"
    by (simp_all add: r_def)
  from fetchTodos_json_rejected [OF h1 h2 h3, of "mounted (Array [])"] h1
  show ?thesis unfolding r_def by blast
qed

subsection \<open>The two outcomes\<close>

text \<open>
  Claim C1, as stated, fails. On the first load \<^verbatim>\<open>fetch\<close> rejects with an
  \<^verbatim>\<open>Error\<close> whose message is empty. The message is published as it is (the generic
  message is used only for thrown values that are not \<^verbatim>\<open>Error\<close>s), so the error slot
  ends with the empty message and the raw collection is not written: neither of the two
  outcomes holds.
\<close>

theorem fetchTodos_empty_message_counterexample:
  "\<not> exactly_one_outcome (mounted ([] :: todo list)) (Rejected (JsError []))"
  by (simp add: exactly_one_outcome_def updated_without_error_def error_without_update_def
      fetchTodos_Rejected run_def mounted_def error_message_def)

text \<open>
  \<^verbatim>\<open>fetchTodos\<close> never clears the error slot: a successful invocation that starts
  with a message in the slot writes the raw collection and leaves the message there.
\<close>

lemma fetchTodos_keeps_error:
  "\<not> exactly_one_outcome
       ((mounted [])\<lparr>error := Some ''HTTP error! Status: 404''\<rparr>)
       (Fulfilled \<lparr>ok = True, status = 200,
          json = Fulfilled [\<lparr>id_todo = 1, title = ''Buy milk'', completed = False\<rparr>]\<rparr>)"
  by (simp add: exactly_one_outcome_def updated_without_error_def error_without_update_def
      fetchTodos_success run_def mounted_def)

text \<open>
  Claim C1, amended. For every invocation of \<^verbatim>\<open>fetchTodos\<close> in which no
  \<^verbatim>\<open>Error\<close> with an empty message is thrown, exactly one of two outcomes holds, never
  both: either the invocation writes the raw collection and does not write the error
  slot, which happens exactly when nothing is thrown, or it writes a non-empty message to
  the error slot and does not write the raw collection. Run with no other writer, a
  successful invocation leaves the error slot as it was and a failing one leaves the raw
  collection unchanged. So, provided the error slot is absent when a successful
  invocation starts (as on the first load), once it has settled either the raw
  collection was updated and the error slot is absent, or the error slot is present
  with a non-empty message and the raw collection is unchanged.
\<close>

theorem fetchTodos_outcomes:
  assumes "failure net \<noteq> Some (JsError [])"
  shows "writes_collection_only (fetchTodos net) \<noteq> writes_message_only (fetchTodos net)
    \<and> writes_collection_only (fetchTodos net) = (failure net = None)
    \<and> (failure net = None \<longrightarrow> error (run (fetchTodos net) s) = error s)
    \<and> (failure net \<noteq> None \<longrightarrow> todos (run (fetchTodos net) s) = todos s)
    \<and> ((failure net = None \<longrightarrow> error s = None) \<longrightarrow>
         exactly_one_outcome s net
         \<and> updated_without_error (fetchTodos net) (run (fetchTodos net) s)
             = (failure net = None)
         \<and> error_without_update s (fetchTodos net) (run (fetchTodos net) s)
             = (failure net \<noteq> None))"
proof (cases net rule: fetchTodos_shape)
  case (failed err)
  with assms have "error_message err \<noteq> []"
    by (simp add: error_message_nonempty)
  with failed show ?thesis
    by (simp add: exactly_one_outcome_def updated_without_error_def error_without_update_def
        writes_collection_only_def writes_message_only_def run_def)
next
  case (succeeded data)
  then show ?thesis
    by (simp add: exactly_one_outcome_def updated_without_error_def error_without_update_def
        writes_collection_only_def writes_message_only_def run_def)
qed

text \<open>
  Witness for claim C1, amended: the first load succeeds with one record, and the first
  load is answered with status 404.
\<close>

theorem fetchTodos_outcomes_witness:
  "(failure (Fulfilled \<lparr>ok = True, status = 200,
        json = Fulfilled [\<lparr>id_todo = 1, title = ''Buy milk'', completed = False\<rparr>]\<rparr>) = None
    \<and> error (mounted ([] :: todo list)) = None
    \<and> exactly_one_outcome (mounted [])
        (Fulfilled \<lparr>ok = True, status = 200,
          json = Fulfilled [\<lparr>id_todo = 1, title = ''Buy milk'', completed = False\<rparr>]\<rparr>)
    \<and> writes_collection_only (fetchTodos (Fulfilled \<lparr>ok = True, status = 200,
          json = Fulfilled [\<lparr>id_todo = 1, title = ''Buy milk'', completed = False\<rparr>]\<rparr>)))
   \<and> (failure (Fulfilled \<lparr>ok = False, status = 404, json = Fulfilled ([] :: todo list)\<rparr>)
        = Some (JsError ''HTTP error! Status: 404'')
    \<and> exactly_one_outcome (mounted [])
        (Fulfilled \<lparr>ok = False, status = 404, json = Fulfilled ([] :: todo list)\<rparr>)
    \<and> writes_message_only (fetchTodos
        (Fulfilled \<lparr>ok = False, status = 404, json = Fulfilled ([] :: todo list)\<rparr>)))"
proof -
  define good where "good = Fulfilled \<lparr>ok = True, status = 200,
        json = Fulfilled [\<lparr>id_todo = 1, title = ''Buy milk'', completed = False\<rparr>]\<rparr>"
  define bad where
    "bad = Fulfilled \<lparr>ok = False, status = 404, json = Fulfilled ([] :: todo list)\<rparr>"
  have g: "failure good = None"
    by (simp add: good_def failure_success)
  have b: "failure bad = Some (JsError ''HTTP error! Status: 404'')"
    by (simp add: bad_def failure_not_ok)
  have e: "error (mounted xs) = None" for xs :: "todo list"
    by (simp add: mounted_def)
  from g have g': "failure good \<noteq> Some (JsError [])"
    by simp
  from b have b': "failure bad \<noteq> Some (JsError [])"
    by simp
  from fetchTodos_outcomes [OF g', of "mounted []"] g e
  have 1: "exactly_one_outcome (mounted []) good \<and> writes_collection_only (fetchTodos good)"
    by blast
  from fetchTodos_outcomes [OF b', of "mounted []"] b
  have 2: "exactly_one_outcome (mounted []) bad \<and> writes_message_only (fetchTodos bad)"
    by auto
  from 1 2 g b e show ?thesis
    unfolding good_def bad_def by blast
qed

subsection \<open>Teardown while the fetch is pending\<close>

text \<open>
  Claim C9, as stated, fails. When the component is torn down while \<^verbatim>\<open>fetch\<close> is
  pending and the fetch then succeeds with the empty collection, the result is not
  discarded: all three setters are called after the teardown.
\<close>

theorem fetchTodos_late_write_counterexample:
  "\<not> discards_late_result
       (Fulfilled \<lparr>ok = True, status = 200, json = Fulfilled ([] :: todo list)\<rparr>)
   \<and> late (torn_down_in_flight
       (Fulfilled \<lparr>ok = True, status = 200, json = Fulfilled ([] :: todo list)\<rparr>))
     = [Effect (SetTodos []), Effect (SetFilteredTodos []), Effect (SetLoading False)]"
  by (simp add: discards_late_result_def late_def torn_down_in_flight_def until_await_def
      after_await_def before_fetch_def fetchTodos_success)

text \<open>
  Claim C9, amended. The state-update step of \<^verbatim>\<open>fetchTodos\<close> has no liveness
  check. If the owning component is torn down before the network operation settles, the
  late-arriving result is not discarded: once the network has answered, the invocation
  calls its setters exactly as it does for a live component, publishing the collection
  or the error and then clearing the loading flag.
\<close>

theorem fetchTodos_unguarded:
  "late (torn_down_in_flight net) = map Effect (after_await (fetchTodos net))
   \<and> until_await (fetchTodos net) @ after_await (fetchTodos net) = fetchTodos net
   \<and> list_ex is_result_write (after_await (fetchTodos net))
   \<and> last (after_await (fetchTodos net)) = SetLoading False
   \<and> \<not> discards_late_result net"
proof -
  have l: "late (torn_down_in_flight net) = map Effect (after_await (fetchTodos net))"
    by (simp add: late_def torn_down_in_flight_def until_await_fetchTodos)
  have "until_await (fetchTodos net) @ after_await (fetchTodos net) = fetchTodos net
    \<and> list_ex is_result_write (after_await (fetchTodos net))
    \<and> last (after_await (fetchTodos net)) = SetLoading False
    \<and> after_await (fetchTodos net) \<noteq> []"
    by (cases net rule: fetchTodos_shape)
      (simp_all add: until_await_def after_await_def before_fetch_def is_result_write_def)
  with l show ?thesis
    by (simp add: discards_late_result_def)
qed

end
